theory Spec2Isabelle
  imports Complex_Main "HOL-Library.Sublist"
begin

section \<open>Values and tables\<close>

text \<open>
  The two scripts of the repository, \<^verbatim>\<open>scripts/clean_and_write.py\<close> (Stage A) and
  \<^verbatim>\<open>scripts/write_sample.py\<close> (Stage B), are straight-line pandas programs over one
  in-memory table. The table is modelled row by row: a frame has the list of its column
  names, in order, and the list of its rows; a row gives the cell of every column name.
  Only the cells of the names in \<open>columns\<close> belong to the table.

  A cell is what pandas keeps in a column: a Python string, a float64 (with its
  infinities and NaN, the marker of a missing value in a string or float column), a
  \<^verbatim>\<open>datetime.date\<close>, \<^verbatim>\<open>NaT\<close> (the missing date), a Python int, or \<^verbatim>\<open>None\<close>.
  A finite float64 is modelled by the real number it stands for.
\<close>

datatype date = Date (year: int) (month: int) (day: int)

datatype float64 = Finite real | PosInf | NegInf | NaN

datatype cell = Str string | Num float64 | Dt date | NaT | IntV int | NoneV

type_synonym row = "string \<Rightarrow> cell"

record frame =
  columns :: "string list"
  rows :: "row list"

datatype error = KeyError string | TypeError | OverflowError

text \<open>\<^verbatim>\<open>pd.isna\<close> on a scalar: NaN, NaT and None are missing.\<close>

fun isna :: "cell \<Rightarrow> bool" where
  "isna (Num NaN) = True"
| "isna NaT = True"
| "isna NoneV = True"
| "isna _ = False"

text \<open>\<^verbatim>\<open>Series.fillna(v)\<close>, on one cell.\<close>

definition fillna :: "cell \<Rightarrow> cell \<Rightarrow> cell" where
  "fillna v c = (if isna c then v else c)"

text \<open>
  \<^verbatim>\<open>df[c] = ...\<close> with a right-hand side computed row by row: the column keeps its
  place when the frame has it and is appended as the last column otherwise.
\<close>

definition setcol :: "string \<Rightarrow> (row \<Rightarrow> cell) \<Rightarrow> frame \<Rightarrow> frame" where
  "setcol c f df =
     \<lparr>columns = (if c \<in> set (columns df) then columns df else columns df @ [c]),
      rows = map (\<lambda>r. r(c := f r)) (rows df)\<rparr>"

text \<open>\<^verbatim>\<open>df[mask]\<close> with a boolean mask computed row by row.\<close>

definition select_rows :: "(row \<Rightarrow> bool) \<Rightarrow> frame \<Rightarrow> frame" where
  "select_rows keep df = \<lparr>columns = columns df, rows = filter keep (rows df)\<rparr>"

section \<open>Deduplication\<close>

text \<open>
  \<^verbatim>\<open>df.drop_duplicates(subset=[...], keep="first")\<close> is \<^verbatim>\<open>df[~df.duplicated(...)]\<close>:
  \<open>duplicated\<close> marks a row whose key (its cells in the subset columns) was seen in an
  earlier row. Two missing keys count as equal, as in pandas.
\<close>

fun duplicated :: "'k list \<Rightarrow> 'k list \<Rightarrow> bool list" where
  "duplicated seen [] = []"
| "duplicated seen (k # ks) = (k \<in> set seen) # duplicated (k # seen) ks"

definition keep_unmarked :: "bool list \<Rightarrow> 'a list \<Rightarrow> 'a list" where
  "keep_unmarked marks xs = map snd (filter (\<lambda>(dup, x). \<not> dup) (zip marks xs))"

definition subset_key :: "string list \<Rightarrow> row \<Rightarrow> cell list" where
  "subset_key ks r = map r ks"

definition drop_duplicates :: "string list \<Rightarrow> frame \<Rightarrow> frame" where
  "drop_duplicates ks df =
     \<lparr>columns = columns df,
      rows = keep_unmarked (duplicated [] (map (subset_key ks) (rows df))) (rows df)\<rparr>"


section \<open>Strings\<close>

text \<open>
  The string methods the script calls, on ASCII text: a character outside ASCII is taken
  as uncased and as no white space. \<open>str_title\<close> is Python's \<^verbatim>\<open>str.title\<close>: a letter
  that follows a letter is lower-cased, any other letter is upper-cased.
\<close>

definition is_upper :: "char \<Rightarrow> bool" where
  "is_upper c = (65 \<le> (of_char c :: nat) \<and> (of_char c :: nat) \<le> 90)"

definition is_lower :: "char \<Rightarrow> bool" where
  "is_lower c = (97 \<le> (of_char c :: nat) \<and> (of_char c :: nat) \<le> 122)"

definition is_space :: "char \<Rightarrow> bool" where
  "is_space c = ((9 \<le> (of_char c :: nat) \<and> (of_char c :: nat) \<le> 13) \<or>
                 (28 \<le> (of_char c :: nat) \<and> (of_char c :: nat) \<le> 32))"

definition to_lower :: "char \<Rightarrow> char" where
  "to_lower c = (if is_upper c then char_of ((of_char c :: nat) + 32) else c)"

definition to_upper :: "char \<Rightarrow> char" where
  "to_upper c = (if is_lower c then char_of ((of_char c :: nat) - 32) else c)"

definition str_lower :: "string \<Rightarrow> string" where
  "str_lower s = map to_lower s"

definition str_strip :: "string \<Rightarrow> string" where
  "str_strip s = rev (dropWhile is_space (rev (dropWhile is_space s)))"

fun title_from :: "bool \<Rightarrow> string \<Rightarrow> string" where
  "title_from prev_cased [] = []"
| "title_from prev_cased (c # cs) =
     (if prev_cased then to_lower c else to_upper c)
       # title_from (is_upper c \<or> is_lower c) cs"

definition str_title :: "string \<Rightarrow> string" where
  "str_title s = title_from False s"

text \<open>
  \<^verbatim>\<open>re.search(r"@(.+)$", s)\<close>, the group: at the leftmost \<^verbatim>\<open>@\<close> that is followed by
  one or more characters other than a newline and then by the end of the string, or by
  a last newline.
\<close>

definition dot_plus_end :: "string \<Rightarrow> string option" where
  "dot_plus_end rest =
     (if rest \<noteq> [] \<and> CHR 0x0A \<notin> set rest then Some rest
      else if rest \<noteq> [] \<and> last rest = CHR 0x0A \<and> butlast rest \<noteq> []
                \<and> CHR 0x0A \<notin> set (butlast rest) then Some (butlast rest)
      else None)"

fun search_at :: "string \<Rightarrow> string option" where
  "search_at [] = None"
| "search_at (c # cs) =
     (if c = CHR ''@'' then (case dot_plus_end cs of Some g \<Rightarrow> Some g | None \<Rightarrow> search_at cs)
      else search_at cs)"

text \<open>\<^verbatim>\<open>re.sub(r"[\$,]", "", s)\<close>.\<close>

definition strip_currency :: "string \<Rightarrow> string" where
  "strip_currency s = filter (\<lambda>c. c \<noteq> CHR ''$'' \<and> c \<noteq> CHR '','') s"

section \<open>Column operations on one cell\<close>

text \<open>
  \<^verbatim>\<open>Series.astype(str)\<close> in a column read with \<^verbatim>\<open>dtype=str\<close>: a string stays, the missing
  value NaN becomes the string \<^verbatim>\<open>nan\<close> (an object column, as pandas before version 3
  reads it). Such a column holds no other cell.
\<close>

fun astype_str :: "cell \<Rightarrow> cell" where
  "astype_str (Str s) = Str s"
| "astype_str (Num NaN) = Str ''nan''"
| "astype_str c = c"

text \<open>A method of the \<^verbatim>\<open>.str\<close> accessor: a cell that is no string gives NaN.\<close>

fun str_method :: "(string \<Rightarrow> string) \<Rightarrow> cell \<Rightarrow> cell" where
  "str_method f (Str s) = Str (f s)"
| "str_method f _ = Num NaN"

text \<open>\<^verbatim>\<open>Series.str.extract(r"@(.+)$", expand=False)\<close>: NaN where the pattern is not found.\<close>

fun str_extract_at :: "cell \<Rightarrow> cell" where
  "str_extract_at (Str s) = (case search_at s of Some g \<Rightarrow> Str g | None \<Rightarrow> Num NaN)"
| "str_extract_at _ = Num NaN"

text \<open>\<^verbatim>\<open>+\<close> on two cells of string columns: NaN when either side is no string.\<close>

fun str_add :: "cell \<Rightarrow> cell \<Rightarrow> cell" where
  "str_add (Str a) (Str b) = Str (a @ b)"
| "str_add _ _ = Num NaN"

text \<open>
  \<^verbatim>\<open>pd.to_numeric(..., errors="coerce")\<close> and \<^verbatim>\<open>pd.to_datetime(..., errors="coerce").dt.date\<close>:
  the parsers of pandas are parameters, \<open>num\<close> from a string to a float64 (NaN when the
  string is no number) and \<open>dat\<close> from a string to a date (none when it is no date).
\<close>

fun to_numeric :: "(string \<Rightarrow> float64) \<Rightarrow> cell \<Rightarrow> cell" where
  "to_numeric num (Str s) = Num (num s)"
| "to_numeric num (Num x) = Num x"
| "to_numeric num _ = Num NaN"

fun to_date :: "(string \<Rightarrow> date option) \<Rightarrow> cell \<Rightarrow> cell" where
  "to_date dat (Str s) = (case dat s of Some d \<Rightarrow> Dt d | None \<Rightarrow> NaT)"
| "to_date dat (Dt d) = Dt d"
| "to_date dat _ = NaT"

section \<open>Dates\<close>

text \<open>
  \<^verbatim>\<open>datetime.date\<close> compares by year, then month, then day; a tuple of two ints compares
  by the first, then the second.
\<close>

definition date_le :: "date \<Rightarrow> date \<Rightarrow> bool" where
  "date_le a b =
     (year a < year b \<or> (year a = year b \<and>
        (month a < month b \<or> (month a = month b \<and> day a \<le> day b))))"

definition tuple_lt :: "int \<times> int \<Rightarrow> int \<times> int \<Rightarrow> bool" where
  "tuple_lt a b = (fst a < fst b \<or> (fst a = fst b \<and> snd a < snd b))"

text \<open>
  An elementwise \<^verbatim>\<open><=\<close> of a column of dates against a date: false at a missing cell.
\<close>

fun cell_le :: "cell \<Rightarrow> date \<Rightarrow> bool" where
  "cell_le (Dt d) t = date_le d t"
| "cell_le _ t = False"

text \<open>\<^verbatim>\<open>date.toordinal\<close>: the number of the day, 1 for 0001-01-01.\<close>

definition is_leap :: "int \<Rightarrow> bool" where
  "is_leap y = (y mod 4 = 0 \<and> (y mod 100 \<noteq> 0 \<or> y mod 400 = 0))"

definition days_before_year :: "int \<Rightarrow> int" where
  "days_before_year y = (y - 1) * 365 + (y - 1) div 4 - (y - 1) div 100 + (y - 1) div 400"

definition days_before_month :: "int \<Rightarrow> int \<Rightarrow> int" where
  "days_before_month y m =
     [0, 31, 59, 90, 120, 151, 181, 212, 243, 273, 304, 334] ! nat (m - 1)
       + (if 2 < m \<and> is_leap y then 1 else 0)"

definition toordinal :: "date \<Rightarrow> int" where
  "toordinal d = days_before_year (year d) + days_before_month (year d) (month d) + day d"

section \<open>Derived fields\<close>

text \<open>\<^verbatim>\<open>calc_age\<close>, lines 45 to 51; the column it is applied to holds dates and NaT.\<close>

fun calc_age :: "date \<Rightarrow> cell \<Rightarrow> cell" where
  "calc_age today (Dt birth) =
     (let delta = year today - year birth
      in if tuple_lt (month today, day today) (month birth, day birth)
         then IntV (delta - 1) else IntV delta)"
| "calc_age today _ = NoneV"

text \<open>
  Line 56: the difference of two midnights, a whole number of days, divided by
  \<^verbatim>\<open>pd.Timedelta(days=365.25)\<close>; NaN where the hire date is missing.
\<close>

fun timedelta_years :: "date \<Rightarrow> cell \<Rightarrow> cell" where
  "timedelta_years today (Dt hire) =
     Num (Finite (of_int (toordinal today - toordinal hire) / 365.25))"
| "timedelta_years today _ = Num NaN"

text \<open>
  Line 57, \<^verbatim>\<open>Series.round(1)\<close>: numpy rounds \<open>x\<close> to \<open>rint (x * 10) / 10\<close>, where
  \<open>rint\<close> takes the nearest integer and the even one of two equally near.
\<close>

definition rint :: "real \<Rightarrow> int" where
  "rint x =
     (let f = \<lfloor>x\<rfloor>; d = x - of_int f
      in if d < 1 / 2 then f else if 1 / 2 < d then f + 1
         else if even f then f else f + 1)"

fun round1 :: "cell \<Rightarrow> cell" where
  "round1 (Num (Finite x)) = Num (Finite (of_int (rint (x * 10)) / 10))"
| "round1 c = c"

text \<open>\<^verbatim>\<open>salary_band\<close>, lines 60 to 67; the column it is applied to holds float64.\<close>

fun float_lt :: "float64 \<Rightarrow> real \<Rightarrow> bool" where
  "float_lt (Finite x) b = (x < b)"
| "float_lt NegInf b = True"
| "float_lt PosInf b = False"
| "float_lt NaN b = False"

text \<open>Python's \<^verbatim>\<open>sal < b\<close> for a number \<open>sal\<close> and an int constant \<open>b\<close>.\<close>

fun num_lt :: "cell \<Rightarrow> real \<Rightarrow> bool" where
  "num_lt (Num x) b = float_lt x b"
| "num_lt (IntV n) b = (of_int n < b)"
| "num_lt _ b = False"

definition salary_band :: "cell \<Rightarrow> cell" where
  "salary_band sal =
     (if isna sal then Str ''Unknown''
      else if num_lt sal 50000 then Str ''Junior''
      else if num_lt sal 80000 then Str ''Mid''
      else Str ''Senior'')"

section \<open>Stage A: \<^verbatim>\<open>clean_and_write.py\<close>\<close>

text \<open>
  Line 9, \<^verbatim>\<open>pd.read_csv(in_path, dtype=str)\<close>: the file as parsed, every field a string
  or missing.
\<close>

record raw_table =
  header :: "string list"
  records :: "(string \<Rightarrow> string option) list"

definition load_record :: "(string \<Rightarrow> string option) \<Rightarrow> row" where
  "load_record x = (\<lambda>c. case x c of Some s \<Rightarrow> Str s | None \<Rightarrow> Num NaN)"

definition read_csv :: "raw_table \<Rightarrow> frame" where
  "read_csv raw = \<lparr>columns = header raw, rows = map load_record (records raw)\<rparr>"

text \<open>
  A run of column assignments, each a column name and its right-hand side on one row.
\<close>

type_synonym assignment = "string \<times> (row \<Rightarrow> cell)"

definition assign_all :: "assignment list \<Rightarrow> frame \<Rightarrow> frame" where
  "assign_all steps df = foldl (\<lambda>d (c, f). setcol c f d) df steps"

text \<open>Lines 15 to 38.\<close>

definition normalize_steps :: "(string \<Rightarrow> float64) \<Rightarrow> (string \<Rightarrow> date option) \<Rightarrow> assignment list" where
  "normalize_steps num dat =
     [(''address'', \<lambda>r. fillna (Str '''') (r ''address'')),
      (''city'', \<lambda>r. fillna (Str '''') (r ''city'')),
      (''state'', \<lambda>r. fillna (Str '''') (r ''state'')),
      (''zip_code'', \<lambda>r. fillna (Str '''') (r ''zip_code'')),
      (''status'', \<lambda>r. fillna (Str ''Active'') (r ''status'')),
      (''first_name'', \<lambda>r. str_method str_title (r ''first_name'')),
      (''last_name'', \<lambda>r. str_method str_title (r ''last_name'')),
      (''full_name'', \<lambda>r. str_add (str_add (fillna (Str '''') (r ''first_name'')) (Str '' ''))
                                    (fillna (Str '''') (r ''last_name''))),
      (''email'', \<lambda>r. str_method str_lower (str_method str_strip (astype_str (r ''email'')))),
      (''email_domain'', \<lambda>r. fillna (Str '''') (str_extract_at (r ''email''))),
      (''salary'', \<lambda>r. str_method strip_currency (astype_str (r ''salary''))),
      (''salary'', \<lambda>r. to_numeric num (r ''salary'')),
      (''hire_date'', \<lambda>r. to_date dat (r ''hire_date'')),
      (''birth_date'', \<lambda>r. to_date dat (r ''birth_date''))]"

text \<open>Line 42, with \<open>today\<close> the UTC date of line 41.\<close>

definition not_future :: "date \<Rightarrow> row \<Rightarrow> bool" where
  "not_future today r = (isna (r ''hire_date'') \<or> cell_le (r ''hire_date'') today)"

text \<open>Lines 53 to 74, with \<open>ts\<close> the local time of line 72 in ISO format.\<close>

definition derive_steps :: "date \<Rightarrow> string \<Rightarrow> assignment list" where
  "derive_steps today ts =
     [(''age'', \<lambda>r. calc_age today (r ''birth_date'')),
      (''tenure_years'', \<lambda>r. timedelta_years today (r ''hire_date'')),
      (''tenure_years'', \<lambda>r. round1 (r ''tenure_years'')),
      (''salary_band'', \<lambda>r. salary_band (r ''salary'')),
      (''created_at'', \<lambda>r. Str ts),
      (''updated_at'', \<lambda>r. Str ts)]"

text \<open>Lines 77 to 84.\<close>

definition final_cols :: "string list" where
  "final_cols =
     [''employee_id'', ''first_name'', ''last_name'', ''full_name'', ''email'', ''email_domain'',
      ''hire_date'', ''job_title'', ''department'', ''salary'', ''salary_band'', ''manager_id'',
      ''address'', ''city'', ''state'', ''zip_code'', ''birth_date'', ''age'', ''tenure_years'',
      ''status'', ''created_at'', ''updated_at'']"

text \<open>
  \<^verbatim>\<open>df.reindex(columns=cs)\<close>: the columns \<open>cs\<close> in that order, a column the frame lacks
  filled with NaN.
\<close>

definition reindex :: "string list \<Rightarrow> frame \<Rightarrow> frame" where
  "reindex cs df =
     \<lparr>columns = cs,
      rows = map (\<lambda>r c. if c \<in> set (columns df) then r c else Num NaN) (rows df)\<rparr>"

text \<open>
  The columns the script reads before it has assigned them; \<^verbatim>\<open>df[c]\<close> raises KeyError
  for the first of them that the file lacks, and nothing is written.
\<close>

definition read_cols :: "string list" where
  "read_cols =
     [''employee_id'', ''address'', ''city'', ''state'', ''zip_code'', ''status'',
      ''first_name'', ''last_name'', ''email'', ''salary'', ''hire_date'', ''birth_date'']"

definition transform ::
  "(string \<Rightarrow> float64) \<Rightarrow> (string \<Rightarrow> date option) \<Rightarrow> date \<Rightarrow> string \<Rightarrow> frame \<Rightarrow> frame" where
  "transform num dat today ts df =
     reindex final_cols
       (assign_all (derive_steps today ts)
         (select_rows (not_future today)
           (assign_all (normalize_steps num dat)
             (drop_duplicates [''employee_id''] df))))"

text \<open>
  Lines 12 to 38 on the loaded file: the frame before the rows with a future hire date
  are removed.
\<close>

definition parsed ::
  "(string \<Rightarrow> float64) \<Rightarrow> (string \<Rightarrow> date option) \<Rightarrow> raw_table \<Rightarrow> frame" where
  "parsed num dat raw =
     assign_all (normalize_steps num dat) (drop_duplicates [''employee_id''] (read_csv raw))"

text \<open>
  Line 37 leaves a column of dates and NaT. When the frame has rows and no hire date of
  them parsed, the column holds NaT only and pandas keeps it as a datetime64 column;
  the comparison of line 42 with a \<^verbatim>\<open>datetime.date\<close> then raises TypeError.
\<close>

definition no_hire_date_parsed :: "frame \<Rightarrow> bool" where
  "no_hire_date_parsed df =
     (rows df \<noteq> [] \<and> list_all (\<lambda>r. isna (r ''hire_date'')) (rows df))"

text \<open>
  Line 56 subtracts two timestamps, counted in nanoseconds in an int64 (pandas 2): the
  subtraction raises OverflowError when the days between the two dates, in nanoseconds,
  reach \<open>2 ^ 63\<close>, a little over 292 years.
\<close>

fun timedelta_overflows :: "date \<Rightarrow> cell \<Rightarrow> bool" where
  "timedelta_overflows today (Dt hire) =
     (2 ^ 63 \<le> (toordinal today - toordinal hire) * 86400000000000)"
| "timedelta_overflows today _ = False"

text \<open>
  The whole script: the first exception ends the run and nothing is written; otherwise
  the frame of line 84 is written.
\<close>

definition stage_a ::
  "(string \<Rightarrow> float64) \<Rightarrow> (string \<Rightarrow> date option) \<Rightarrow> date \<Rightarrow> string \<Rightarrow> raw_table
     \<Rightarrow> error + frame" where
  "stage_a num dat today ts raw =
     (case find (\<lambda>c. c \<notin> set (header raw)) read_cols of
        Some c \<Rightarrow> Inl (KeyError c)
      | None \<Rightarrow>
          if no_hire_date_parsed (parsed num dat raw) then Inl TypeError
          else if list_ex (\<lambda>r. timedelta_overflows today (r ''hire_date''))
                    (rows (select_rows (not_future today) (parsed num dat raw)))
          then Inl OverflowError
          else Inr (transform num dat today ts (read_csv raw)))"

text \<open>\<^verbatim>\<open>to_csv(..., index=False)\<close>: the header line and the cells of every row under it.\<close>

definition to_csv :: "frame \<Rightarrow> string list \<times> cell list list" where
  "to_csv df = (columns df, map (\<lambda>r. map r (columns df)) (rows df))"

section \<open>Stage B: \<^verbatim>\<open>write_sample.py\<close>\<close>

definition cols :: "string list" where
  "cols = [''employee_id'', ''full_name'', ''email'', ''salary'', ''salary_band'', ''age'',
           ''tenure_years'', ''department'']"

text \<open>\<^verbatim>\<open>df[cs]\<close> with a list of names: KeyError when the frame lacks one of them.\<close>

definition getcols :: "string list \<Rightarrow> frame \<Rightarrow> error + frame" where
  "getcols cs df =
     (case find (\<lambda>c. c \<notin> set (columns df)) cs of
        Some c \<Rightarrow> Inl (KeyError c)
      | None \<Rightarrow> Inr \<lparr>columns = cs, rows = rows df\<rparr>)"

definition head :: "nat \<Rightarrow> frame \<Rightarrow> frame" where
  "head n df = \<lparr>columns = columns df, rows = take n (rows df)\<rparr>"

text \<open>Lines 10 and 11, on the frame read from the output of Stage A.\<close>

definition write_sample :: "frame \<Rightarrow> error + frame" where
  "write_sample df = (case getcols cols df of Inl e \<Rightarrow> Inl e | Inr pdf \<Rightarrow> Inr (head 10 pdf))"

section \<open>One row through Stage A\<close>

text \<open>
  The assignments of a run change every row by itself: \<open>apply_steps\<close> is their effect
  on one row, \<open>clean_row\<close> the effect of lines 15 to 74 on a row that line 42 keeps.
\<close>

definition apply_steps :: "assignment list \<Rightarrow> row \<Rightarrow> row" where
  "apply_steps steps r = foldl (\<lambda>r (c, f). r(c := f r)) r steps"

definition parsed_row :: "(string \<Rightarrow> float64) \<Rightarrow> (string \<Rightarrow> date option) \<Rightarrow> row \<Rightarrow> row" where
  "parsed_row num dat x = apply_steps (normalize_steps num dat) x"

definition clean_row ::
  "(string \<Rightarrow> float64) \<Rightarrow> (string \<Rightarrow> date option) \<Rightarrow> date \<Rightarrow> string \<Rightarrow> row \<Rightarrow> row" where
  "clean_row num dat today ts x = apply_steps (derive_steps today ts) (parsed_row num dat x)"

text \<open>
  The loaded records that reach the output, and the row written for such a record of a
  file with the header \<open>hdr\<close>.
\<close>

definition kept ::
  "(string \<Rightarrow> float64) \<Rightarrow> (string \<Rightarrow> date option) \<Rightarrow> date \<Rightarrow> raw_table \<Rightarrow> row list" where
  "kept num dat today raw =
     filter (\<lambda>x. not_future today (parsed_row num dat x))
       (rows (drop_duplicates [''employee_id''] (read_csv raw)))"

definition output_row ::
  "(string \<Rightarrow> float64) \<Rightarrow> (string \<Rightarrow> date option) \<Rightarrow> date \<Rightarrow> string \<Rightarrow> string list
     \<Rightarrow> row \<Rightarrow> row" where
  "output_row num dat today ts hdr x =
     (\<lambda>c. if c \<in> set hdr \<union> fst ` set (normalize_steps num dat)
                   \<union> fst ` set (derive_steps today ts)
          then clean_row num dat today ts x c else Num NaN)"

text \<open>The rows kept when the keys in \<open>seen\<close> have already occurred.\<close>

definition unseen_rows :: "(row \<Rightarrow> 'k) \<Rightarrow> 'k list \<Rightarrow> row list \<Rightarrow> row list" where
  "unseen_rows key seen rs = keep_unmarked (duplicated seen (map key rs)) rs"

text \<open>The text of a cell of a string column, empty for a missing cell.\<close>

fun text_of :: "cell \<Rightarrow> string" where
  "text_of (Str s) = s"
| "text_of _ = []"

section \<open>A sample run\<close>

text \<open>
  A file of four records with the twelve columns the script reads: a complete record,
  a second record with the same employee id, a record with a last name only, and a
  record hired in 2030; run on 2024-03-14.
\<close>

definition sample_rec1 :: "string \<Rightarrow> string option" where
  "sample_rec1 =
     (\<lambda>c. None)(''employee_id'' := Some ''E1'', ''first_name'' := Some ''john'',
        ''last_name'' := Some ''smith'', ''email'' := Some '' John@Example.COM '',
        ''salary'' := Some ''$45,000'', ''hire_date'' := Some ''2020-01-01'',
        ''birth_date'' := Some ''2000-03-15'')"

definition sample_rec2 :: "string \<Rightarrow> string option" where
  "sample_rec2 = (\<lambda>c. None)(''employee_id'' := Some ''E1'', ''salary'' := Some ''$90,000'')"

definition sample_rec3 :: "string \<Rightarrow> string option" where
  "sample_rec3 = (\<lambda>c. None)(''employee_id'' := Some ''E2'', ''last_name'' := Some ''DOE'')"

definition sample_rec4 :: "string \<Rightarrow> string option" where
  "sample_rec4 = (\<lambda>c. None)(''employee_id'' := Some ''E3'', ''hire_date'' := Some ''2030-01-01'')"

definition sample_raw :: raw_table where
  "sample_raw =
     \<lparr>header = read_cols, records = [sample_rec1, sample_rec2, sample_rec3, sample_rec4]\<rparr>"

definition sample_num :: "string \<Rightarrow> float64" where
  "sample_num s =
     (if s = ''45000'' then Finite 45000 else if s = ''90000'' then Finite 90000 else NaN)"

definition sample_dat :: "string \<Rightarrow> date option" where
  "sample_dat s =
     (if s = ''2020-01-01'' then Some (Date 2020 1 1)
      else if s = ''2000-03-15'' then Some (Date 2000 3 15)
      else if s = ''2030-01-01'' then Some (Date 2030 1 1)
      else None)"

definition sample_today :: date where
  "sample_today = Date 2024 3 14"

definition sample_ts :: string where
  "sample_ts = ''2024-03-14T09:00:00''"

definition sample_out :: frame where
  "sample_out = transform sample_num sample_dat sample_today sample_ts (read_csv sample_raw)"

text \<open>The rows written for the first and for the third record of the sample.\<close>

definition sample_row1 :: row where
  "sample_row1 =
     output_row sample_num sample_dat sample_today sample_ts read_cols (load_record sample_rec1)"

definition sample_row3 :: row where
  "sample_row3 =
     output_row sample_num sample_dat sample_today sample_ts read_cols (load_record sample_rec3)"





definition undated_raw :: raw_table where
  "undated_raw = \<lparr>header = read_cols, records = [sample_rec3]\<rparr>"

text \<open>
  The columns in the order of the data-model table of the specification (its section 3),
  to compare with \<open>final_cols\<close>.
\<close>

definition spec_cols :: "string list" where
  "spec_cols =
     [''employee_id'', ''first_name'', ''last_name'', ''full_name'', ''email'', ''email_domain'',
      ''hire_date'', ''birth_date'', ''job_title'', ''department'', ''manager_id'', ''salary'',
      ''salary_band'', ''address'', ''city'', ''state'', ''zip_code'', ''age'', ''tenure_years'',
      ''status'', ''created_at'', ''updated_at'']"

text \<open>A cleaned table of fifteen rows, numbered in the employee id, for Stage B.\<close>

definition sample_clean :: frame where
  "sample_clean =
     \<lparr>columns = final_cols,
      rows = map (\<lambda>i c. if c = ''employee_id'' then IntV i else Num NaN)
               [1, 2, 3, 4, 5, 6, 7, 8, 9, 10, 11, 12, 13, 14, 15]\<rparr>"

section \<open>Properties of the deduplication\<close>

lemma unseen_rows_Nil: "unseen_rows key seen [] = []"
  by (simp add: unseen_rows_def keep_unmarked_def)

lemma unseen_rows_Cons:
  "unseen_rows key seen (r # rs) =
     (if key r \<in> set seen then unseen_rows key (key r # seen) rs
      else r # unseen_rows key (key r # seen) rs)"
  by (simp add: unseen_rows_def keep_unmarked_def)

lemma keys_unseen_rows:
  "key ` set (unseen_rows key seen rs) = key ` set rs - set seen"
proof (induction rs arbitrary: seen)
  case Nil
  show ?case by (simp add: unseen_rows_Nil)
next
  case (Cons r rs)
  have "key ` set (unseen_rows key (key r # seen) rs) = key ` set rs - set (key r # seen)"
    by (rule Cons.IH)
  then show ?case
    by (auto simp: unseen_rows_Cons)
qed

lemma distinct_unseen_rows: "distinct (map key (unseen_rows key seen rs))"
proof (induction rs arbitrary: seen)
  case Nil
  show ?case by (simp add: unseen_rows_Nil)
next
  case (Cons r rs)
  have "key r \<notin> key ` set (unseen_rows key (key r # seen) rs)"
    by (simp only: keys_unseen_rows) simp
  with Cons.IH [of "key r # seen"] show ?case
    by (simp add: unseen_rows_Cons)
qed



lemma unseen_rows_fixed:
  "distinct (map key rs) \<Longrightarrow> set (map key rs) \<inter> set seen = {} \<Longrightarrow>
     unseen_rows key seen rs = rs"
proof (induction rs arbitrary: seen)
  case Nil
  show ?case by (simp add: unseen_rows_Nil)
next
  case (Cons r rs)
  from Cons.prems have "set (map key rs) \<inter> set (key r # seen) = {}"
    by auto
  moreover from Cons.prems have "distinct (map key rs)"
    by simp
  ultimately have "unseen_rows key (key r # seen) rs = rs"
    by (rule Cons.IH [rotated])
  with Cons.prems show ?case
    by (auto simp: unseen_rows_Cons)
qed

lemma rows_drop_duplicates:
  "rows (drop_duplicates ks df) = unseen_rows (subset_key ks) [] (rows df)"
  by (simp add: drop_duplicates_def unseen_rows_def)




text \<open>
  C9. Deduplicating twice gives the same frame as deduplicating once.
\<close>

theorem drop_duplicates_idempotent:
  "drop_duplicates ks (drop_duplicates ks df) = drop_duplicates ks df"
proof -
  let ?key = "subset_key ks"
  let ?rs = "unseen_rows ?key [] (rows df)"
  have "distinct (map ?key ?rs)"
    by (rule distinct_unseen_rows)
  then have "unseen_rows ?key [] ?rs = ?rs"
    by (rule unseen_rows_fixed) simp
  then show ?thesis
    by (simp add: drop_duplicates_def unseen_rows_def)
qed

section \<open>Stage A, row by row\<close>

lemma rows_setcol: "rows (setcol c f df) = map (\<lambda>r. r(c := f r)) (rows df)"
  by (simp add: setcol_def)

lemma columns_setcol: "set (columns (setcol c f df)) = insert c (set (columns df))"
  by (auto simp: setcol_def)

lemma rows_assign_all: "rows (assign_all steps df) = map (apply_steps steps) (rows df)"
proof (induction steps arbitrary: df)
  case Nil
  show ?case by (simp add: assign_all_def apply_steps_def)
next
  case (Cons s steps)
  obtain c f where s: "s = (c, f)" by (cases s)
  have "rows (assign_all steps (setcol c f df)) = map (apply_steps steps) (rows (setcol c f df))"
    by (rule Cons.IH)
  then show ?case
    by (simp add: s assign_all_def apply_steps_def rows_setcol)
qed

lemma columns_assign_all:
  "set (columns (assign_all steps df)) = set (columns df) \<union> fst ` set steps"
proof (induction steps arbitrary: df)
  case Nil
  show ?case by (simp add: assign_all_def)
next
  case (Cons s steps)
  obtain c f where s: "s = (c, f)" by (cases s)
  have "set (columns (assign_all steps (setcol c f df)))
          = set (columns (setcol c f df)) \<union> fst ` set steps"
    by (rule Cons.IH)
  then show ?case
    by (simp add: s assign_all_def columns_setcol)
qed

lemma columns_drop_duplicates: "columns (drop_duplicates ks df) = columns df"
  by (simp add: drop_duplicates_def)

lemma rows_parsed:
  "rows (parsed num dat raw) =
     map (parsed_row num dat) (rows (drop_duplicates [''employee_id''] (read_csv raw)))"
  by (simp add: parsed_def rows_assign_all parsed_row_def)

lemma rows_transform:
  "rows (transform num dat today ts (read_csv raw)) =
     map (output_row num dat today ts (header raw)) (kept num dat today raw)"
proof -
  let ?df = "read_csv raw"
  let ?d1 = "drop_duplicates [''employee_id''] ?df"
  let ?d2 = "assign_all (normalize_steps num dat) ?d1"
  let ?d3 = "select_rows (not_future today) ?d2"
  let ?d4 = "assign_all (derive_steps today ts) ?d3"
  have cols: "set (columns ?d4) = set (header raw) \<union> fst ` set (normalize_steps num dat)
                \<union> fst ` set (derive_steps today ts)"
    by (simp add: columns_assign_all select_rows_def columns_drop_duplicates read_csv_def)
  have "rows ?d3 = map (parsed_row num dat) (kept num dat today raw)"
    by (simp add: select_rows_def rows_assign_all kept_def parsed_row_def filter_map comp_def)
  then have "rows ?d4 = map (clean_row num dat today ts) (kept num dat today raw)"
    by (simp add: rows_assign_all clean_row_def)
  then have "rows (reindex final_cols ?d4) =
      map (\<lambda>r c. if c \<in> set (columns ?d4) then r c else Num NaN)
        (map (clean_row num dat today ts) (kept num dat today raw))"
    by (simp add: reindex_def)
  then show ?thesis
    by (simp add: transform_def cols output_row_def comp_def)
qed

lemma stage_a_InrD:
  assumes "stage_a num dat today ts raw = Inr out"
  shows "set read_cols \<subseteq> set (header raw)"
    and "out = transform num dat today ts (read_csv raw)"
    and "\<not> no_hire_date_parsed (parsed num dat raw)"
proof -
  from assms have none: "find (\<lambda>c. c \<notin> set (header raw)) read_cols = None"
    by (cases "find (\<lambda>c. c \<notin> set (header raw)) read_cols") (simp_all add: stage_a_def)
  then show "set read_cols \<subseteq> set (header raw)"
    by (auto simp: find_None_iff)
  from assms none show "out = transform num dat today ts (read_csv raw)"
    by (simp add: stage_a_def split: if_splits)
  from assms none show "\<not> no_hire_date_parsed (parsed num dat raw)"
    by (simp add: stage_a_def split: if_splits)
qed

lemma stage_a_InrI:
  assumes "set read_cols \<subseteq> set (header raw)"
    and "\<not> no_hire_date_parsed (parsed num dat raw)"
    and "\<not> list_ex (\<lambda>r. timedelta_overflows today (r ''hire_date''))
            (rows (select_rows (not_future today) (parsed num dat raw)))"
  shows "stage_a num dat today ts raw = Inr (transform num dat today ts (read_csv raw))"
proof -
  from assms(1) have "find (\<lambda>c. c \<notin> set (header raw)) read_cols = None"
    by (auto simp: find_None_iff)
  with assms(2,3) show ?thesis
    by (simp add: stage_a_def)
qed

lemma stage_a_rows:
  "stage_a num dat today ts raw = Inr out \<Longrightarrow>
     rows out = map (output_row num dat today ts (header raw)) (kept num dat today raw)"
  by (drule stage_a_InrD(2)) (simp add: rows_transform)

lemma stage_a_columns: "stage_a num dat today ts raw = Inr out \<Longrightarrow> columns out = final_cols"
  by (drule stage_a_InrD(2)) (simp add: transform_def reindex_def)

lemma parsed_row_cells:
  "parsed_row num dat x ''employee_id'' = x ''employee_id''"
  "parsed_row num dat x ''first_name'' = str_method str_title (x ''first_name'')"
  "parsed_row num dat x ''last_name'' = str_method str_title (x ''last_name'')"
  "parsed_row num dat x ''hire_date'' = to_date dat (x ''hire_date'')"
  "parsed_row num dat x ''birth_date'' = to_date dat (x ''birth_date'')"
  by (simp_all add: parsed_row_def apply_steps_def normalize_steps_def)

lemma output_row_cells:
  "output_row num dat today ts hdr x ''first_name'' = str_method str_title (x ''first_name'')"
  "output_row num dat today ts hdr x ''last_name'' = str_method str_title (x ''last_name'')"
  "output_row num dat today ts hdr x ''full_name'' =
     str_add (str_add (fillna (Str '''') (str_method str_title (x ''first_name''))) (Str '' ''))
       (fillna (Str '''') (str_method str_title (x ''last_name'')))"
  "output_row num dat today ts hdr x ''email'' =
     str_method str_lower (str_method str_strip (astype_str (x ''email'')))"
  "output_row num dat today ts hdr x ''email_domain'' =
     fillna (Str '''') (str_extract_at
       (str_method str_lower (str_method str_strip (astype_str (x ''email'')))))"
  "output_row num dat today ts hdr x ''salary'' =
     to_numeric num (str_method strip_currency (astype_str (x ''salary'')))"
  "output_row num dat today ts hdr x ''hire_date'' = to_date dat (x ''hire_date'')"
  "output_row num dat today ts hdr x ''birth_date'' = to_date dat (x ''birth_date'')"
  "output_row num dat today ts hdr x ''age'' = calc_age today (to_date dat (x ''birth_date''))"
  "output_row num dat today ts hdr x ''tenure_years'' =
     round1 (timedelta_years today (to_date dat (x ''hire_date'')))"
  "output_row num dat today ts hdr x ''salary_band'' =
     salary_band (to_numeric num (str_method strip_currency (astype_str (x ''salary''))))"
  by (simp_all add: output_row_def clean_row_def parsed_row_def apply_steps_def
        normalize_steps_def derive_steps_def)


section \<open>The sample run\<close>

lemma rows_not_future:
  "rows (select_rows (not_future today) (parsed num dat raw)) =
     map (parsed_row num dat) (kept num dat today raw)"
  by (simp add: select_rows_def rows_parsed kept_def filter_map comp_def)

lemma sample_loaded:
  "rows (drop_duplicates [''employee_id''] (read_csv sample_raw)) =
     [load_record sample_rec1, load_record sample_rec3, load_record sample_rec4]"
  by (simp add: rows_drop_duplicates unseen_rows_Cons unseen_rows_Nil subset_key_def
        read_csv_def sample_raw_def load_record_def
        sample_rec1_def sample_rec2_def sample_rec3_def sample_rec4_def)

lemma sample_kept:
  "kept sample_num sample_dat sample_today sample_raw =
     [load_record sample_rec1, load_record sample_rec3]"
  unfolding kept_def sample_loaded
  by (simp add: not_future_def parsed_row_cells load_record_def sample_dat_def
        sample_rec1_def sample_rec3_def sample_rec4_def sample_today_def date_le_def)

lemma sample_parsed_hire_dates:
  "parsed_row sample_num sample_dat (load_record sample_rec1) ''hire_date'' = Dt (Date 2020 1 1)"
  "parsed_row sample_num sample_dat (load_record sample_rec3) ''hire_date'' = NaT"
  by (simp_all add: parsed_row_cells load_record_def sample_rec1_def sample_rec3_def
        sample_dat_def)

lemma sample_no_overflow: "\<not> timedelta_overflows sample_today (Dt (Date 2020 1 1))"
  by (simp add: sample_today_def toordinal_def days_before_year_def days_before_month_def
        is_leap_def)

lemma sample_stage_a:
  "stage_a sample_num sample_dat sample_today sample_ts sample_raw = Inr sample_out"
  unfolding sample_out_def
proof (rule stage_a_InrI)
  show "set read_cols \<subseteq> set (header sample_raw)"
    by (simp add: sample_raw_def)
  show "\<not> no_hire_date_parsed (parsed sample_num sample_dat sample_raw)"
    by (simp add: no_hire_date_parsed_def rows_parsed sample_loaded sample_parsed_hire_dates)
  show "\<not> list_ex (\<lambda>r. timedelta_overflows sample_today (r ''hire_date''))
            (rows (select_rows (not_future sample_today)
               (parsed sample_num sample_dat sample_raw)))"
    using sample_no_overflow
    by (simp add: rows_not_future sample_kept sample_parsed_hire_dates)
qed

lemma sample_rows: "rows sample_out = [sample_row1, sample_row3]"
  using stage_a_rows [OF sample_stage_a]
  by (simp add: sample_kept sample_row1_def sample_row3_def) (simp add: sample_raw_def)

section \<open>Derived fields of the output\<close>

lemma to_date_cases: "to_date dat c = NaT \<or> (\<exists>d. to_date dat c = Dt d)"
  by (cases c) (auto split: option.splits)

lemma output_rowE:
  assumes "stage_a num dat today ts raw = Inr out" and "r \<in> set (rows out)"
  obtains x where "x \<in> set (kept num dat today raw)"
    and "r = output_row num dat today ts (header raw) x"
  using assms by (auto simp: stage_a_rows)

lemma sample_birth_dates:
  "sample_row1 ''birth_date'' = Dt (Date 2000 3 15)" "sample_row3 ''birth_date'' = NaT"
  by (simp_all add: sample_row1_def sample_row3_def output_row_cells load_record_def
        sample_rec1_def sample_rec3_def sample_dat_def)

text \<open>
  C6. In every row of the output of Stage A the age is the value of \<^verbatim>\<open>calc_age\<close> at the
  birth date of the row: missing exactly when the birth date is missing; otherwise the
  year of the run date minus the year of birth, minus one when the month and day of the
  run date come before the month and day of birth. Born 2000-03-15: 23 on 2024-03-14,
  24 on 2024-03-15.
\<close>

theorem calc_age_output:
  assumes "stage_a num dat today ts raw = Inr out"
  shows "(\<forall>r \<in> set (rows out).
            r ''age'' = calc_age today (r ''birth_date'') \<and>
            (isna (r ''age'') \<longleftrightarrow> isna (r ''birth_date'')) \<and>
            (r ''birth_date'' = NaT \<or> (\<exists>b. r ''birth_date'' = Dt b)) \<and>
            (\<forall>b. r ''birth_date'' = Dt b \<longrightarrow>
               r ''age'' = IntV (year today - year b -
                  (if month today < month b \<or> (month today = month b \<and> day today < day b)
                   then 1 else 0)))) \<and>
         calc_age (Date 2024 3 14) (Dt (Date 2000 3 15)) = IntV 23 \<and>
         calc_age (Date 2024 3 15) (Dt (Date 2000 3 15)) = IntV 24"
proof -
  have "r ''age'' = calc_age today (r ''birth_date'') \<and>
        (isna (r ''age'') \<longleftrightarrow> isna (r ''birth_date'')) \<and>
        (r ''birth_date'' = NaT \<or> (\<exists>b. r ''birth_date'' = Dt b)) \<and>
        (\<forall>b. r ''birth_date'' = Dt b \<longrightarrow>
           r ''age'' = IntV (year today - year b -
              (if month today < month b \<or> (month today = month b \<and> day today < day b)
               then 1 else 0)))"
    if "r \<in> set (rows out)" for r
  proof -
    from assms that obtain x where r: "r = output_row num dat today ts (header raw) x"
      by (rule output_rowE)
    have age: "r ''age'' = calc_age today (r ''birth_date'')"
      by (simp add: r output_row_cells)
    from to_date_cases [of dat "x ''birth_date''"]
    have birth: "r ''birth_date'' = NaT \<or> (\<exists>b. r ''birth_date'' = Dt b)"
      by (simp add: r output_row_cells)
    from birth age show ?thesis
      by (auto simp: tuple_lt_def Let_def split: if_splits)
  qed
  moreover have "calc_age (Date 2024 3 14) (Dt (Date 2000 3 15)) = IntV 23"
    by (simp add: tuple_lt_def)
  moreover have "calc_age (Date 2024 3 15) (Dt (Date 2000 3 15)) = IntV 24"
    by (simp add: tuple_lt_def)
  ultimately show ?thesis
    by blast
qed

theorem calc_age_output_witness:
  "stage_a sample_num sample_dat sample_today sample_ts sample_raw = Inr sample_out \<and>
   sample_row1 \<in> set (rows sample_out) \<and>
   sample_row1 ''birth_date'' = Dt (Date 2000 3 15) \<and>
   sample_row1 ''age'' = IntV 23 \<and>
   sample_row3 \<in> set (rows sample_out) \<and>
   isna (sample_row3 ''birth_date'') \<and>
   isna (sample_row3 ''age'')"
proof -
  note facts = calc_age_output [OF sample_stage_a]
  have m1: "sample_row1 \<in> set (rows sample_out)" and m3: "sample_row3 \<in> set (rows sample_out)"
    by (simp_all add: sample_rows)
  from facts m1 sample_birth_dates(1)
  have "sample_row1 ''age'' = IntV (year sample_today - year (Date 2000 3 15) -
          (if month sample_today < month (Date 2000 3 15)
              \<or> (month sample_today = month (Date 2000 3 15)
                    \<and> day sample_today < day (Date 2000 3 15))
           then 1 else 0))"
    by blast
  then have a1: "sample_row1 ''age'' = IntV 23"
    by (simp add: sample_today_def)
  from facts m3 have "isna (sample_row3 ''age'') \<longleftrightarrow> isna (sample_row3 ''birth_date'')"
    by blast
  then have a3: "isna (sample_row3 ''age'')"
    by (simp add: sample_birth_dates)
  from sample_stage_a m1 m3 a1 a3 sample_birth_dates show ?thesis
    by simp
qed

lemma salary_band_Finite:
  "salary_band (Num (Finite x)) =
     (if x < 50000 then Str ''Junior'' else if x < 80000 then Str ''Mid'' else Str ''Senior'')"
  by (simp add: salary_band_def)

lemma sample_salaries:
  "sample_row1 ''salary'' = Num (Finite 45000)" "sample_row3 ''salary'' = Num NaN"
  by (simp_all add: sample_row1_def sample_row3_def output_row_cells load_record_def
        sample_rec1_def sample_rec3_def sample_num_def strip_currency_def)

text \<open>
  C3. The salary band is a function of the salary alone, defined for every float64: in
  every row of the output of Stage A it is the value of \<^verbatim>\<open>salary_band\<close> at the salary of
  the row, which is a float64. A missing salary (NaN) gives Unknown, a salary below 50000
  Junior, from 50000 and below 80000 Mid, from 80000 Senior.
\<close>

theorem salary_band_total:
  assumes "stage_a num dat today ts raw = Inr out"
  shows "(\<forall>r \<in> set (rows out).
            r ''salary_band'' = salary_band (r ''salary'') \<and> (\<exists>x. r ''salary'' = Num x)) \<and>
         salary_band (Num NaN) = Str ''Unknown'' \<and>
         (\<forall>x. x < 50000 \<longrightarrow> salary_band (Num (Finite x)) = Str ''Junior'') \<and>
         (\<forall>x. 50000 \<le> x \<and> x < 80000 \<longrightarrow> salary_band (Num (Finite x)) = Str ''Mid'') \<and>
         (\<forall>x. 80000 \<le> x \<longrightarrow> salary_band (Num (Finite x)) = Str ''Senior'') \<and>
         salary_band (Num NegInf) = Str ''Junior'' \<and>
         salary_band (Num PosInf) = Str ''Senior'' \<and>
         salary_band (Num (Finite 49999.99)) = Str ''Junior'' \<and>
         salary_band (Num (Finite 50000)) = Str ''Mid'' \<and>
         salary_band (Num (Finite 79999.99)) = Str ''Mid'' \<and>
         salary_band (Num (Finite 80000)) = Str ''Senior''"
proof -
  have "r ''salary_band'' = salary_band (r ''salary'') \<and> (\<exists>x. r ''salary'' = Num x)"
    if "r \<in> set (rows out)" for r
  proof -
    from assms that obtain x where r: "r = output_row num dat today ts (header raw) x"
      by (rule output_rowE)
    have "\<exists>y. to_numeric num c = Num y" for c
      by (cases c) simp_all
    then show ?thesis
      by (simp add: r output_row_cells)
  qed
  moreover have "salary_band (Num NaN) = Str ''Unknown''"
    and "salary_band (Num NegInf) = Str ''Junior''"
    and "salary_band (Num PosInf) = Str ''Senior''"
    by (simp_all add: salary_band_def)
  ultimately show ?thesis
    by (simp add: salary_band_Finite)
qed

theorem salary_band_total_witness:
  "stage_a sample_num sample_dat sample_today sample_ts sample_raw = Inr sample_out \<and>
   sample_row1 \<in> set (rows sample_out) \<and>
   sample_row1 ''salary'' = Num (Finite 45000) \<and> (45000::real) < 50000 \<and>
   sample_row1 ''salary_band'' = Str ''Junior'' \<and>
   sample_row3 \<in> set (rows sample_out) \<and>
   sample_row3 ''salary'' = Num NaN \<and>
   sample_row3 ''salary_band'' = Str ''Unknown'' \<and>
   (50000::real) \<le> 60000 \<and> (60000::real) < 80000 \<and>
   salary_band (Num (Finite 60000)) = Str ''Mid'' \<and>
   (80000::real) \<le> 90000 \<and> salary_band (Num (Finite 90000)) = Str ''Senior''"
proof -
  note facts = salary_band_total [OF sample_stage_a]
  have m1: "sample_row1 \<in> set (rows sample_out)" and m3: "sample_row3 \<in> set (rows sample_out)"
    by (simp_all add: sample_rows)
  from facts m1 have "sample_row1 ''salary_band'' = salary_band (sample_row1 ''salary'')"
    by blast
  moreover from facts have "(45000::real) < 50000 \<longrightarrow> salary_band (Num (Finite 45000)) = Str ''Junior''"
    by blast
  ultimately have b1: "sample_row1 ''salary_band'' = Str ''Junior''"
    by (simp add: sample_salaries)
  from facts m3 have "sample_row3 ''salary_band'' = salary_band (sample_row3 ''salary'')"
    by blast
  moreover from facts have "salary_band (Num NaN) = Str ''Unknown''"
    by blast
  ultimately have b3: "sample_row3 ''salary_band'' = Str ''Unknown''"
    by (simp add: sample_salaries)
  from facts have "(50000::real) \<le> 60000 \<and> (60000::real) < 80000
      \<longrightarrow> salary_band (Num (Finite 60000)) = Str ''Mid''"
    by blast
  then have mid: "salary_band (Num (Finite 60000)) = Str ''Mid''"
    by simp
  from facts have "(80000::real) \<le> 90000 \<longrightarrow> salary_band (Num (Finite 90000)) = Str ''Senior''"
    by blast
  then have senior: "salary_band (Num (Finite 90000)) = Str ''Senior''"
    by simp
  from sample_stage_a m1 m3 b1 b3 mid senior sample_salaries show ?thesis
    by simp
qed

section \<open>Rounding of the tenure\<close>

lemma rint_near:
  assumes "y - of_int \<lfloor>y\<rfloor> \<noteq> 1 / 2"
  shows "\<bar>of_int (rint y) - y\<bar> < 1 / 2"
proof -
  have "of_int \<lfloor>y\<rfloor> \<le> y" and "y < of_int \<lfloor>y\<rfloor> + 1"
    by linarith+
  with assms show ?thesis
    unfolding rint_def Let_def by (simp split: if_splits)
qed

lemma years_tenths: "of_int n / 365.25 * (10 :: real) = of_int (40 * n) / 1461"
  by simp

lemma odd_multiple_1461: "(40 * n :: int) * 2 \<noteq> 1461 * (2 * f + 1)"
proof
  assume eq: "40 * n * 2 = 1461 * (2 * f + 1)"
  have "even (40 * n * 2)" by simp
  moreover have "odd (1461 * (2 * f + 1))" by simp
  ultimately show False using eq by simp
qed

lemma half_of_1461:
  fixes m f :: int
  assumes "(of_int m :: real) / 1461 - of_int f = 1 / 2"
  shows "m * 2 = 1461 * (2 * f + 1)"
proof -
  from assms have "(of_int m :: real) = 1461 * (of_int f + 1 / 2)"
    by (simp add: field_simps)
  then have "(of_int m :: real) * 2 = 1461 * (2 * of_int f + 1)"
    by (simp add: algebra_simps)
  then have "(of_int (m * 2) :: real) = of_int (1461 * (2 * f + 1))"
    by simp
  then show ?thesis
    by (simp only: of_int_eq_iff)
qed

lemma tenths_no_tie:
  fixes n :: int
  defines "y \<equiv> of_int n / 365.25 * (10 :: real)"
  shows "y - of_int \<lfloor>y\<rfloor> \<noteq> 1 / 2"
proof
  assume "y - of_int \<lfloor>y\<rfloor> = 1 / 2"
  then have "(of_int (40 * n) :: real) / 1461 - of_int \<lfloor>y\<rfloor> = 1 / 2"
    by (simp only: y_def years_tenths)
  then have "40 * n * 2 = 1461 * (2 * \<lfloor>y\<rfloor> + 1)"
    by (rule half_of_1461)
  then show False
    by (simp only: odd_multiple_1461)
qed

lemma tenth_near:
  fixes q :: real and k :: int
  assumes "\<bar>of_int k - q * 10\<bar> < 1 / 2"
  shows "\<bar>of_int k / 10 - q\<bar> < 1 / 20"
proof -
  have e: "of_int k / 10 - q = (of_int k - q * 10) / 10"
    by simp
  have "\<bar>(of_int k - q * 10) / 10\<bar> = \<bar>of_int k - q * 10\<bar> / \<bar>10\<bar>"
    by (rule abs_divide)
  also have "\<dots> < (1 / 2) / \<bar>10 :: real\<bar>"
    using assms by (intro divide_strict_right_mono) simp_all
  finally show ?thesis
    by (simp only: e)
qed

lemma round1_years:
  fixes n :: int
  shows "\<exists>k::int. round1 (Num (Finite (of_int n / 365.25))) = Num (Finite (of_int k / 10)) \<and>
           \<bar>of_int k / 10 - of_int n / (365.25 :: real)\<bar> < 1 / 20"
proof -
  define q :: real where "q = of_int n / 365.25"
  define k :: int where "k = rint (q * 10)"
  have "\<bar>of_int k - q * 10\<bar> < 1 / 2"
    unfolding k_def q_def by (rule rint_near) (rule tenths_no_tie)
  then have "\<bar>of_int k / 10 - q\<bar> < 1 / 20"
    by (rule tenth_near)
  moreover have "round1 (Num (Finite q)) = Num (Finite (of_int k / 10))"
    by (simp only: round1.simps k_def)
  ultimately show ?thesis
    unfolding q_def by blast
qed

lemma sample_hire_dates:
  "sample_row1 ''hire_date'' = Dt (Date 2020 1 1)" "sample_row3 ''hire_date'' = NaT"
  by (simp_all add: sample_row1_def sample_row3_def output_row_cells load_record_def
        sample_rec1_def sample_rec3_def sample_dat_def)

lemma sample_days: "toordinal sample_today - toordinal (Date 2020 1 1) = 1534"
  by (simp add: sample_today_def toordinal_def days_before_year_def days_before_month_def
        is_leap_def)

lemma four_years: "toordinal (Date 2024 1 1) - toordinal (Date 2020 1 1) = 1461"
  by (simp add: toordinal_def days_before_year_def days_before_month_def is_leap_def)

lemma rint_42: "rint (1534 / 365.25 * 10) = 42"
  by (simp add: rint_def Let_def)

lemma rint_40: "rint (1461 / 365.25 * 10) = 40"
  by (simp add: rint_def Let_def)

text \<open>
  C7. In every row of the output of Stage A the tenure is missing exactly when the hire
  date is missing; otherwise it is a number with one decimal digit, \<open>k / 10\<close> for an
  integer \<open>k\<close>, that lies less than 0.05 from the number of days from the hire date to
  the run date divided by 365.25: that quotient rounded to one decimal place. It is never
  half way between two such numbers, so the rounding mode does not matter. Hired
  2020-01-01, run on 2024-01-01: 4.0.
\<close>

theorem tenure_years_output:
  assumes "stage_a num dat today ts raw = Inr out"
  shows "(\<forall>r \<in> set (rows out).
            r ''tenure_years'' = round1 (timedelta_years today (r ''hire_date'')) \<and>
            (isna (r ''tenure_years'') \<longleftrightarrow> isna (r ''hire_date'')) \<and>
            (r ''hire_date'' = NaT \<or> (\<exists>h. r ''hire_date'' = Dt h)) \<and>
            (\<forall>h. r ''hire_date'' = Dt h \<longrightarrow>
               (\<exists>k::int. r ''tenure_years'' = Num (Finite (of_int k / 10)) \<and>
                  \<bar>of_int k / 10 - of_int (toordinal today - toordinal h) / (365.25 :: real)\<bar>
                    < 1 / 20))) \<and>
         round1 (timedelta_years (Date 2024 1 1) (Dt (Date 2020 1 1))) = Num (Finite 4)"
proof -
  have "r ''tenure_years'' = round1 (timedelta_years today (r ''hire_date'')) \<and>
        (isna (r ''tenure_years'') \<longleftrightarrow> isna (r ''hire_date'')) \<and>
        (r ''hire_date'' = NaT \<or> (\<exists>h. r ''hire_date'' = Dt h)) \<and>
        (\<forall>h. r ''hire_date'' = Dt h \<longrightarrow>
           (\<exists>k::int. r ''tenure_years'' = Num (Finite (of_int k / 10)) \<and>
              \<bar>of_int k / 10 - of_int (toordinal today - toordinal h) / (365.25 :: real)\<bar>
                < 1 / 20))"
    if "r \<in> set (rows out)" for r
  proof -
    from assms that obtain x where r: "r = output_row num dat today ts (header raw) x"
      by (rule output_rowE)
    have tenure: "r ''tenure_years'' = round1 (timedelta_years today (r ''hire_date''))"
      by (simp add: r output_row_cells)
    from to_date_cases [of dat "x ''hire_date''"]
    have hire: "r ''hire_date'' = NaT \<or> (\<exists>h. r ''hire_date'' = Dt h)"
      by (simp add: r output_row_cells)
    have missing: "isna (r ''tenure_years'') \<longleftrightarrow> isna (r ''hire_date'')"
      using hire by (auto simp: tenure)
    have rounded: "\<exists>k::int. r ''tenure_years'' = Num (Finite (of_int k / 10)) \<and>
              \<bar>of_int k / 10 - of_int (toordinal today - toordinal h) / (365.25 :: real)\<bar> < 1 / 20"
      if "r ''hire_date'' = Dt h" for h
      using round1_years [of "toordinal today - toordinal h"]
      by (simp only: tenure that timedelta_years.simps)
    from tenure missing hire rounded show ?thesis
      by blast
  qed
  moreover have "round1 (timedelta_years (Date 2024 1 1) (Dt (Date 2020 1 1))) = Num (Finite 4)"
    using rint_40 by (simp add: four_years)
  ultimately show ?thesis
    by blast
qed

theorem tenure_years_output_witness:
  "stage_a sample_num sample_dat sample_today sample_ts sample_raw = Inr sample_out \<and>
   sample_row1 \<in> set (rows sample_out) \<and>
   sample_row1 ''hire_date'' = Dt (Date 2020 1 1) \<and>
   toordinal sample_today - toordinal (Date 2020 1 1) = 1534 \<and>
   sample_row1 ''tenure_years'' = Num (Finite 4.2) \<and>
   sample_row3 \<in> set (rows sample_out) \<and>
   isna (sample_row3 ''hire_date'') \<and>
   isna (sample_row3 ''tenure_years'')"
proof -
  note facts = tenure_years_output [OF sample_stage_a]
  have m1: "sample_row1 \<in> set (rows sample_out)" and m3: "sample_row3 \<in> set (rows sample_out)"
    by (simp_all add: sample_rows)
  from facts m1
  have "sample_row1 ''tenure_years'' = round1 (timedelta_years sample_today (sample_row1 ''hire_date''))"
    by blast
  then have t1: "sample_row1 ''tenure_years'' = Num (Finite 4.2)"
    using rint_42 by (simp add: sample_hire_dates sample_days)
  from facts m3 have "isna (sample_row3 ''tenure_years'') \<longleftrightarrow> isna (sample_row3 ''hire_date'')"
    by blast
  then have t3: "isna (sample_row3 ''tenure_years'')"
    by (simp add: sample_hire_dates)
  from sample_stage_a m1 m3 t1 t3 sample_hire_dates sample_days show ?thesis
    by simp
qed

section \<open>Future hire dates\<close>


















text \<open>
  A file whose records have no hire date that parses is not cleaned: line 42 raises
  TypeError and nothing is written.
\<close>

lemma undated_file_raises:
  "stage_a sample_num sample_dat sample_today sample_ts undated_raw = Inl TypeError"
proof -
  have "find (\<lambda>c. c \<notin> set (header undated_raw)) read_cols = None"
    by (simp add: find_None_iff undated_raw_def)
  moreover have "rows (parsed sample_num sample_dat undated_raw)
      = [parsed_row sample_num sample_dat (load_record sample_rec3)]"
    by (simp add: rows_parsed rows_drop_duplicates unseen_rows_Cons unseen_rows_Nil
          read_csv_def undated_raw_def)
  then have "no_hire_date_parsed (parsed sample_num sample_dat undated_raw)"
    by (simp add: no_hire_date_parsed_def sample_parsed_hire_dates)
  ultimately show ?thesis
    by (simp add: stage_a_def)
qed

section \<open>Names and email\<close>

lemma title_DOE: "str_title ''DOE'' = ''Doe''"
  by code_simp

lemma title_john: "str_title ''john'' = ''John''"
  by code_simp

lemma title_smith: "str_title ''smith'' = ''Smith''"
  by code_simp

lemma normal_nan: "str_lower (str_strip ''nan'') = ''nan''"
  by code_simp

lemma normal_john: "str_lower (str_strip '' John@Example.COM '') = ''john@example.com''"
  by code_simp

lemma search_at_nan: "search_at ''nan'' = None"
  by simp

lemma search_at_john: "search_at ''john@example.com'' = Some ''example.com''"
  by (simp add: dot_plus_end_def)

lemma fillna_str_method: "fillna (Str []) (str_method g c) = Str (text_of (str_method g c))"
  by (cases c) (simp_all add: fillna_def)

lemma str_method_cases: "str_method g c = Num NaN \<or> (\<exists>s. str_method g c = Str s)"
  by (cases c) simp_all

lemma set_unseen_rows: "set (unseen_rows key seen rs) \<subseteq> set rs"
proof (induction rs arbitrary: seen)
  case Nil
  show ?case by (simp add: unseen_rows_Nil)
next
  case (Cons r rs)
  have "set (unseen_rows key (key r # seen) rs) \<subseteq> set rs"
    by (rule Cons.IH)
  then show ?case
    by (auto simp: unseen_rows_Cons)
qed

lemma kept_loaded:
  assumes "x \<in> set (kept num dat today raw)"
  obtains y where "y \<in> set (records raw)" and "x = load_record y"
proof -
  from assms have "x \<in> set (rows (drop_duplicates [''employee_id''] (read_csv raw)))"
    by (simp add: kept_def)
  then have "x \<in> set (rows (read_csv raw))"
    using set_unseen_rows by (auto simp: rows_drop_duplicates)
  then show ?thesis
    using that by (auto simp: read_csv_def)
qed

lemma sample_names:
  "sample_row1 ''first_name'' = Str ''John''" "sample_row1 ''last_name'' = Str ''Smith''"
  "sample_row3 ''first_name'' = Num NaN" "sample_row3 ''last_name'' = Str ''Doe''"
  by (simp_all add: sample_row1_def sample_row3_def output_row_cells load_record_def
        sample_rec1_def sample_rec3_def title_DOE title_john title_smith)

lemma sample_full_names:
  "sample_row1 ''full_name'' = Str ''John Smith''" "sample_row3 ''full_name'' = Str '' Doe''"
  by (simp_all add: sample_row1_def sample_row3_def output_row_cells load_record_def
        sample_rec1_def sample_rec3_def title_DOE title_john title_smith fillna_def)

lemma sample_raw_emails:
  "load_record sample_rec1 ''email'' = Str '' John@Example.COM ''"
  "load_record sample_rec3 ''email'' = Num NaN"
  by (simp_all add: load_record_def sample_rec1_def sample_rec3_def)

lemma sample_emails:
  "sample_row1 ''email'' = Str ''john@example.com''"
  "sample_row1 ''email_domain'' = Str ''example.com''"
  "sample_row3 ''email'' = Str ''nan''"
  "sample_row3 ''email_domain'' = Str ''''"
  by (simp_all only: sample_row1_def sample_row3_def output_row_cells sample_raw_emails
        astype_str.simps str_method.simps normal_nan normal_john str_extract_at.simps
        search_at_nan search_at_john option.case fillna_def isna.simps if_True if_False)

text \<open>
  C5, as the code has it. In every row of the output of Stage A the first and the last
  name are the title-cased names of the record the row comes from, and the full name is
  the first name, one space and the last name, a missing name taken as the empty string.
  The result is not trimmed: the full name of a record with a last name only begins
  with the space.
\<close>

theorem full_name_concat:
  assumes "stage_a num dat today ts raw = Inr out"
  shows "\<forall>r \<in> set (rows out).
           (\<exists>x \<in> set (kept num dat today raw).
              r ''first_name'' = str_method str_title (x ''first_name'') \<and>
              r ''last_name'' = str_method str_title (x ''last_name'')) \<and>
           (r ''first_name'' = Num NaN \<or> (\<exists>a. r ''first_name'' = Str a)) \<and>
           (r ''last_name'' = Num NaN \<or> (\<exists>b. r ''last_name'' = Str b)) \<and>
           r ''full_name'' = Str (text_of (r ''first_name'') @ '' '' @ text_of (r ''last_name''))"
proof
  fix r
  assume "r \<in> set (rows out)"
  with assms obtain x where x: "x \<in> set (kept num dat today raw)"
    and r: "r = output_row num dat today ts (header raw) x"
    by (rule output_rowE)
  have first: "r ''first_name'' = str_method str_title (x ''first_name'')"
    and last: "r ''last_name'' = str_method str_title (x ''last_name'')"
    by (simp_all add: r output_row_cells)
  have "r ''full_name'' = str_add (str_add (fillna (Str []) (r ''first_name'')) (Str '' ''))
          (fillna (Str []) (r ''last_name''))"
    by (simp add: r output_row_cells)
  then have full: "r ''full_name'' = Str (text_of (r ''first_name'') @ '' '' @ text_of (r ''last_name''))"
    by (simp add: first last fillna_str_method)
  from str_method_cases [of str_title "x ''first_name''"]
  have first_cases: "r ''first_name'' = Num NaN \<or> (\<exists>a. r ''first_name'' = Str a)"
    by (simp only: first)
  from str_method_cases [of str_title "x ''last_name''"]
  have last_cases: "r ''last_name'' = Num NaN \<or> (\<exists>b. r ''last_name'' = Str b)"
    by (simp only: last)
  from x first last first_cases last_cases full
  show "(\<exists>x \<in> set (kept num dat today raw).
              r ''first_name'' = str_method str_title (x ''first_name'') \<and>
              r ''last_name'' = str_method str_title (x ''last_name'')) \<and>
           (r ''first_name'' = Num NaN \<or> (\<exists>a. r ''first_name'' = Str a)) \<and>
           (r ''last_name'' = Num NaN \<or> (\<exists>b. r ''last_name'' = Str b)) \<and>
           r ''full_name'' = Str (text_of (r ''first_name'') @ '' '' @ text_of (r ''last_name''))"
    by blast
qed

theorem full_name_concat_witness:
  "stage_a sample_num sample_dat sample_today sample_ts sample_raw = Inr sample_out \<and>
   sample_row1 \<in> set (rows sample_out) \<and>
   sample_row1 ''first_name'' = Str ''John'' \<and>
   sample_row1 ''last_name'' = Str ''Smith'' \<and>
   sample_row1 ''full_name'' = Str ''John Smith'' \<and>
   sample_row3 \<in> set (rows sample_out) \<and>
   sample_row3 ''first_name'' = Num NaN \<and>
   sample_row3 ''last_name'' = Str ''Doe'' \<and>
   sample_row3 ''full_name'' = Str '' Doe''"
proof -
  note facts = full_name_concat [OF sample_stage_a]
  have m1: "sample_row1 \<in> set (rows sample_out)" and m3: "sample_row3 \<in> set (rows sample_out)"
    by (simp_all add: sample_rows)
  from facts m1 have "sample_row1 ''full_name'' =
      Str (text_of (sample_row1 ''first_name'') @ '' '' @ text_of (sample_row1 ''last_name''))"
    by blast
  then have f1: "sample_row1 ''full_name'' = Str ''John Smith''"
    by (simp add: sample_names)
  from facts m3 have "sample_row3 ''full_name'' =
      Str (text_of (sample_row3 ''first_name'') @ '' '' @ text_of (sample_row3 ''last_name''))"
    by blast
  then have f3: "sample_row3 ''full_name'' = Str '' Doe''"
    by (simp add: sample_names)
  from sample_stage_a m1 m3 f1 f3 sample_names show ?thesis
    by simp
qed

text \<open>
  The full name is not the trimmed concatenation: the third record of the sample has no
  first name and the last name DOE; its full name in the output is the space followed
  by Doe, not the trimmed Doe.
\<close>

theorem full_name_not_trimmed:
  "stage_a sample_num sample_dat sample_today sample_ts sample_raw = Inr sample_out \<and>
   sample_row3 \<in> set (rows sample_out) \<and>
   load_record sample_rec3 ''first_name'' = Num NaN \<and>
   load_record sample_rec3 ''last_name'' = Str ''DOE'' \<and>
   sample_row3 ''last_name'' = Str ''Doe'' \<and>
   sample_row3 ''full_name'' = Str '' Doe'' \<and>
   sample_row3 ''full_name'' \<noteq> Str ''Doe'' \<and>
   sample_row3 ''full_name'' \<noteq> Str (str_strip '' Doe'')"
proof -
  have "load_record sample_rec3 ''first_name'' = Num NaN"
    and "load_record sample_rec3 ''last_name'' = Str ''DOE''"
    by (simp_all add: load_record_def sample_rec3_def)
  moreover have "sample_row3 \<in> set (rows sample_out)"
    by (simp add: sample_rows)
  moreover have "str_strip '' Doe'' = ''Doe''"
    by code_simp
  ultimately show ?thesis
    using sample_stage_a sample_names sample_full_names by simp
qed

text \<open>
  C10. A record whose email is missing in the file has, in the row Stage A writes for
  it, the email \<^verbatim>\<open>nan\<close> and the empty email domain: the output rows are the kept
  records in order, and for each pair the email and the domain are as said. The email
  of an output row is always a string, never missing.
\<close>

theorem missing_email_is_nan:
  assumes "stage_a num dat today ts raw = Inr out"
  shows "list_all2 (\<lambda>x r. isna (x ''email'') \<longrightarrow>
                      r ''email'' = Str ''nan'' \<and> r ''email_domain'' = Str '''')
           (kept num dat today raw) (rows out) \<and>
         (\<forall>x \<in> set (kept num dat today raw).
            \<exists>y \<in> set (records raw). x = load_record y \<and> (isna (x ''email'') \<longleftrightarrow> y ''email'' = None)) \<and>
         (\<forall>r \<in> set (rows out). \<exists>s. r ''email'' = Str s)"
proof -
  let ?out = "output_row num dat today ts (header raw)"
  have out: "rows out = map ?out (kept num dat today raw)"
    using assms by (rule stage_a_rows)
  have nan: "?out x ''email'' = Str ''nan'' \<and> ?out x ''email_domain'' = Str ''''"
    if "isna (x ''email'')" and "x \<in> set (kept num dat today raw)" for x
  proof -
    from that(2) obtain y where "x = load_record y"
      by (rule kept_loaded)
    with that(1) have "x ''email'' = Num NaN"
      by (cases "y ''email''") (simp_all add: load_record_def)
    then show ?thesis
      by (simp only: output_row_cells astype_str.simps str_method.simps normal_nan
            str_extract_at.simps search_at_nan option.case fillna_def isna.simps if_True)
  qed
  have pairs: "list_all2 (\<lambda>x r. isna (x ''email'') \<longrightarrow>
                      r ''email'' = Str ''nan'' \<and> r ''email_domain'' = Str '''')
           (kept num dat today raw) (rows out)"
  proof -
    have "\<forall>x \<in> set (kept num dat today raw). isna (x ''email'') \<longrightarrow>
            ?out x ''email'' = Str ''nan'' \<and> ?out x ''email_domain'' = Str []"
      using nan by simp
    then show ?thesis
      by (simp only: out list_all2_map2 list_all2_same)
  qed
  have loaded: "\<exists>y \<in> set (records raw). x = load_record y \<and> (isna (x ''email'') \<longleftrightarrow> y ''email'' = None)"
    if "x \<in> set (kept num dat today raw)" for x
  proof -
    from that obtain y where y: "y \<in> set (records raw)" "x = load_record y"
      by (rule kept_loaded)
    have "isna (load_record y ''email'') \<longleftrightarrow> y ''email'' = None"
      by (cases "y ''email''") (simp_all add: load_record_def)
    with y show ?thesis
      by (intro bexI [of _ y]) simp_all
  qed
  have strings: "\<exists>s. r ''email'' = Str s" if "r \<in> set (rows out)" for r
  proof -
    from assms that obtain x where x: "x \<in> set (kept num dat today raw)"
      and r: "r = ?out x"
      by (rule output_rowE)
    from x obtain y where "x = load_record y"
      by (rule kept_loaded)
    then have "(\<exists>s. x ''email'' = Str s) \<or> x ''email'' = Num NaN"
      by (cases "y ''email''") (simp_all add: load_record_def)
    then show ?thesis
      by (auto simp: r output_row_cells)
  qed
  show ?thesis
    by (intro conjI ballI pairs loaded strings)
qed

theorem missing_email_is_nan_witness:
  "stage_a sample_num sample_dat sample_today sample_ts sample_raw = Inr sample_out \<and>
   kept sample_num sample_dat sample_today sample_raw
     = [load_record sample_rec1, load_record sample_rec3] \<and>
   rows sample_out = [sample_row1, sample_row3] \<and>
   isna (load_record sample_rec3 ''email'') \<and>
   sample_rec3 ''email'' = None \<and>
   sample_row3 ''email'' = Str ''nan'' \<and>
   sample_row3 ''email_domain'' = Str '''' \<and>
   sample_row1 \<in> set (rows sample_out) \<and>
   sample_row1 ''email'' = Str ''john@example.com''"
proof -
  note facts = missing_email_is_nan [OF sample_stage_a]
  have missing: "isna (load_record sample_rec3 ''email'')"
    by (simp add: sample_raw_emails)
  have none: "sample_rec3 ''email'' = None"
    by (simp add: sample_rec3_def)
  from facts have "list_all2 (\<lambda>x r. isna (x ''email'') \<longrightarrow>
                      r ''email'' = Str ''nan'' \<and> r ''email_domain'' = Str '''')
           [load_record sample_rec1, load_record sample_rec3] [sample_row1, sample_row3]"
    by (simp only: sample_kept sample_rows)
  with missing have nan: "sample_row3 ''email'' = Str ''nan'' \<and> sample_row3 ''email_domain'' = Str ''''"
    by simp
  have m1: "sample_row1 \<in> set (rows sample_out)"
    by (simp add: sample_rows)
  from sample_stage_a sample_kept sample_rows missing none nan m1 sample_emails(1)
  show ?thesis
    by simp
qed


section \<open>Columns of the output and the sample\<close>

lemma final_cols_spec_cols:
  "set final_cols = set spec_cols" "distinct final_cols" "length final_cols = 22"
  "final_cols \<noteq> spec_cols"
  by (auto simp: final_cols_def spec_cols_def)

lemma cols_final_cols: "set cols \<subseteq> set final_cols"
  by (simp add: cols_def final_cols_def)

lemma getcols_Inr:
  "set cs \<subseteq> set (columns df) \<Longrightarrow> getcols cs df = Inr \<lparr>columns = cs, rows = rows df\<rparr>"
proof -
  assume "set cs \<subseteq> set (columns df)"
  then have "find (\<lambda>c. c \<notin> set (columns df)) cs = None"
    by (auto simp: find_None_iff)
  then show ?thesis
    by (simp add: getcols_def)
qed

text \<open>
  C4, as the code has it. The table Stage A writes has on every run the same 22 columns,
  those of the data-model table of the specification, in the order of \<open>final_cols\<close>:
  the job title, the department and the salary come before the manager id, and the
  birth date comes after the zip code. Every line has 22 cells.
\<close>

theorem output_columns:
  assumes "stage_a num dat today ts raw = Inr out"
  shows "fst (to_csv out) =
           [''employee_id'', ''first_name'', ''last_name'', ''full_name'', ''email'',
            ''email_domain'', ''hire_date'', ''job_title'', ''department'', ''salary'',
            ''salary_band'', ''manager_id'', ''address'', ''city'', ''state'', ''zip_code'',
            ''birth_date'', ''age'', ''tenure_years'', ''status'', ''created_at'',
            ''updated_at''] \<and>
         set (fst (to_csv out)) = set spec_cols \<and>
         distinct (fst (to_csv out)) \<and>
         length (fst (to_csv out)) = length spec_cols \<and>
         (\<forall>line \<in> set (snd (to_csv out)). length line = 22)"
proof -
  from assms have "columns out = final_cols"
    by (rule stage_a_columns)
  then have header: "fst (to_csv out) = final_cols"
    and lines: "\<forall>line \<in> set (snd (to_csv out)). length line = length final_cols"
    by (simp_all add: to_csv_def)
  have "length spec_cols = 22"
    by (simp add: spec_cols_def)
  with header lines final_cols_spec_cols(1-3) show ?thesis
    by (simp add: final_cols_def)
qed

theorem output_columns_witness:
  "stage_a sample_num sample_dat sample_today sample_ts sample_raw = Inr sample_out \<and>
   fst (to_csv sample_out) ! 7 = ''job_title'' \<and>
   fst (to_csv sample_out) ! 16 = ''birth_date'' \<and>
   length (fst (to_csv sample_out)) = 22 \<and>
   snd (to_csv sample_out) = [map sample_row1 final_cols, map sample_row3 final_cols] \<and>
   map sample_row1 final_cols \<in> set (snd (to_csv sample_out)) \<and>
   length (map sample_row1 final_cols) = 22"
proof -
  note facts = output_columns [OF sample_stage_a]
  from facts have names: "fst (to_csv sample_out) =
           [''employee_id'', ''first_name'', ''last_name'', ''full_name'', ''email'',
            ''email_domain'', ''hire_date'', ''job_title'', ''department'', ''salary'',
            ''salary_band'', ''manager_id'', ''address'', ''city'', ''state'', ''zip_code'',
            ''birth_date'', ''age'', ''tenure_years'', ''status'', ''created_at'',
            ''updated_at'']"
    by (rule conjunct1)
  have n7: "fst (to_csv sample_out) ! 7 = ''job_title''"
    and n16: "fst (to_csv sample_out) ! 16 = ''birth_date''"
    and len: "length (fst (to_csv sample_out)) = 22"
    by (simp_all add: names)
  have "columns sample_out = final_cols"
    using sample_stage_a by (rule stage_a_columns)
  then have lines: "snd (to_csv sample_out) = [map sample_row1 final_cols, map sample_row3 final_cols]"
    by (simp add: to_csv_def sample_rows)
  then have member: "map sample_row1 final_cols \<in> set (snd (to_csv sample_out))"
    by simp
  with facts have "length (map sample_row1 final_cols) = 22"
    by blast
  with sample_stage_a n7 n16 len lines member show ?thesis
    by simp
qed

text \<open>
  The order of the columns is not the order of the data-model table: the eighth column
  of the output of the sample run is the job title, the eighth of the table is the
  birth date.
\<close>

theorem output_columns_not_in_table_order:
  "stage_a sample_num sample_dat sample_today sample_ts sample_raw = Inr sample_out \<and>
   fst (to_csv sample_out) \<noteq> spec_cols \<and>
   fst (to_csv sample_out) ! 7 = ''job_title'' \<and>
   spec_cols ! 7 = ''birth_date''"
proof -
  have "columns sample_out = final_cols"
    using sample_stage_a by (rule stage_a_columns)
  then have "fst (to_csv sample_out) = final_cols"
    by (simp add: to_csv_def)
  moreover have "final_cols ! 7 = ''job_title''"
    by (simp add: final_cols_def)
  moreover have "spec_cols ! 7 = ''birth_date''"
    by (simp add: spec_cols_def)
  ultimately show ?thesis
    using sample_stage_a final_cols_spec_cols(4) by simp
qed

text \<open>
  C8. Stage B, on a frame that has the eight columns of \<open>cols\<close> (as every output of
  Stage A has): the sample has exactly these eight columns, in this order, and its rows
  are the first ten rows of the frame, or all of them when there are fewer, in their
  order and restricted to the eight columns; no row is filtered out and none is moved.
\<close>

theorem write_sample_first_rows:
  assumes "set cols \<subseteq> set (columns df)"
  shows "write_sample df = Inr \<lparr>columns = cols, rows = take 10 (rows df)\<rparr> \<and>
         to_csv \<lparr>columns = cols, rows = take 10 (rows df)\<rparr> =
           ([''employee_id'', ''full_name'', ''email'', ''salary'', ''salary_band'', ''age'',
             ''tenure_years'', ''department''],
            map (\<lambda>r. [r ''employee_id'', r ''full_name'', r ''email'', r ''salary'',
                       r ''salary_band'', r ''age'', r ''tenure_years'', r ''department''])
              (take 10 (rows df))) \<and>
         length (take 10 (rows df)) = min 10 (length (rows df)) \<and>
         (\<forall>i < min 10 (length (rows df)). take 10 (rows df) ! i = rows df ! i) \<and>
         set cols \<subseteq> set final_cols"
proof -
  from assms have "getcols cols df = Inr \<lparr>columns = cols, rows = rows df\<rparr>"
    by (rule getcols_Inr)
  then have "write_sample df = Inr \<lparr>columns = cols, rows = take 10 (rows df)\<rparr>"
    by (simp add: write_sample_def head_def)
  moreover have "to_csv \<lparr>columns = cols, rows = take 10 (rows df)\<rparr> =
           ([''employee_id'', ''full_name'', ''email'', ''salary'', ''salary_band'', ''age'',
             ''tenure_years'', ''department''],
            map (\<lambda>r. [r ''employee_id'', r ''full_name'', r ''email'', r ''salary'',
                       r ''salary_band'', r ''age'', r ''tenure_years'', r ''department''])
              (take 10 (rows df)))"
    by (simp add: to_csv_def cols_def)
  moreover have "length (take 10 (rows df)) = min 10 (length (rows df))"
    by simp
  moreover have "\<forall>i < min 10 (length (rows df)). take 10 (rows df) ! i = rows df ! i"
    by simp
  ultimately show ?thesis
    using cols_final_cols by simp
qed

theorem write_sample_first_rows_witness:
  "set cols \<subseteq> set (columns sample_clean) \<and>
   length (rows sample_clean) = 15 \<and>
   write_sample sample_clean = Inr \<lparr>columns = cols, rows = take 10 (rows sample_clean)\<rparr> \<and>
   length (take 10 (rows sample_clean)) = 10 \<and>
   (3::nat) < min 10 (length (rows sample_clean)) \<and>
   take 10 (rows sample_clean) ! 3 = rows sample_clean ! 3 \<and>
   map (\<lambda>r. r ''employee_id'') (take 10 (rows sample_clean)) =
     [IntV 1, IntV 2, IntV 3, IntV 4, IntV 5, IntV 6, IntV 7, IntV 8, IntV 9, IntV 10]"
proof -
  have has_cols: "set cols \<subseteq> set (columns sample_clean)"
    using cols_final_cols by (simp add: sample_clean_def)
  note facts = write_sample_first_rows [OF has_cols]
  have fifteen: "length (rows sample_clean) = 15"
    by (simp add: sample_clean_def)
  from facts have written:
    "write_sample sample_clean = Inr \<lparr>columns = cols, rows = take 10 (rows sample_clean)\<rparr>"
    by (rule conjunct1)
  from facts have "length (take 10 (rows sample_clean)) = min 10 (length (rows sample_clean))"
    by blast
  then have ten: "length (take 10 (rows sample_clean)) = 10"
    by (simp only: fifteen)
  have third: "(3::nat) < min 10 (length (rows sample_clean))"
    by (simp add: fifteen)
  with facts have same: "take 10 (rows sample_clean) ! 3 = rows sample_clean ! 3"
    by blast
  have ids: "map (\<lambda>r. r ''employee_id'') (take 10 (rows sample_clean)) =
     [IntV 1, IntV 2, IntV 3, IntV 4, IntV 5, IntV 6, IntV 7, IntV 8, IntV 9, IntV 10]"
    by (simp add: sample_clean_def)
  from has_cols fifteen written ten third same ids show ?thesis
    by (intro conjI)
qed

end
